theory Spec2Isabelle
  imports Complex_Main "HOL-Library.Sublist"
begin

section \<open>Session controller of the VoiceBot front end (frontend/script.js)\<close>

text \<open>
  The class \<^verbatim>\<open>VoiceBotApp\<close> is embedded as a record of the fields its methods read and
  write, together with the parts of the page and of the browser they touch. Methods are
  functions from state to state. JavaScript strings are modelled as \<^typ>\<open>string\<close>;
  characters outside ASCII (the rupee sign, the pictographs in messages) are written as
  their UTF-8 bytes.
\<close>

subsection \<open>Strings\<close>

definition lowerChar :: "char \<Rightarrow> char" where
  "lowerChar c =
     (case map_of (zip ''ABCDEFGHIJKLMNOPQRSTUVWXYZ'' ''abcdefghijklmnopqrstuvwxyz'') c of
        Some d \<Rightarrow> d
      | None \<Rightarrow> c)"

text \<open>
  \<^verbatim>\<open>String.prototype.toLowerCase\<close> as it acts on a string of ASCII characters: the letters
  A to Z are mapped, every other character is kept. JavaScript also maps letters outside
  ASCII (the Kelvin sign to k, for one); on a string that has such characters the function
  below is not the one of JavaScript, so every statement about an arbitrary input assumes
  \<open>isAscii\<close> of it. The same holds for \<open>trim\<close> below, which removes the ASCII white space.
\<close>

definition toLowerCase :: "string \<Rightarrow> string" where
  "toLowerCase s = map lowerChar s"

definition isAscii :: "string \<Rightarrow> bool" where
  "isAscii s = list_all (\<lambda>c. (of_char c :: nat) < 128) s"

text \<open>\<^verbatim>\<open>s.includes(sub)\<close>: \<open>sub\<close> occurs in \<open>s\<close> as a contiguous run.\<close>

fun includes_str :: "string \<Rightarrow> string \<Rightarrow> bool" where
  "includes_str [] sub = (sub = [])"
| "includes_str (c # cs) sub = (prefix sub (c # cs) \<or> includes_str cs sub)"

definition rupee :: string where
  "rupee = [CHR 0xE2, CHR 0x82, CHR 0xB9]"

subsection \<open>Data model\<close>

record metrics =
  conversations :: int
  leads :: int
  revenue :: int
  satisfaction :: int

text \<open>
  A notification as \<^verbatim>\<open>addNotification\<close> builds it. \<open>notif_id\<close> is the field \<^verbatim>\<open>id\<close>,
  \<open>notif_message\<close> the field \<^verbatim>\<open>message\<close>, \<open>notif_type\<close> the field \<^verbatim>\<open>type\<close>;
  \<open>timestamp\<close> holds the instant that \<^verbatim>\<open>toLocaleString\<close> formats.
\<close>

record notification =
  notif_id :: int
  notif_message :: string
  notif_type :: string
  timestamp :: int
  read :: bool

text \<open>
  The children of the \<^verbatim>\<open>.chat-messages\<close> container: a message group made by
  \<^verbatim>\<open>createMessageElement\<close> (sender, text, input type, intent and confidence of the
  metadata), a system message (text, type), a block of quick replies, the typing indicator.
\<close>

datatype node =
    MessageGroup string string string "string option" "real option"
  | SystemMessage string string
  | QuickReplies "string list"
  | TypingIndicator

text \<open>Which closure is installed as \<^verbatim>\<open>recognition.onresult\<close>.\<close>

datatype handler = RawResult | CommandResult

record recognizer =
  lang :: string
  onresult :: handler

text \<open>
  A file offered for download, with the instant its name is dated from; for the PDF report
  also the charts whose images it contains.
\<close>

datatype download = DataExport int | BusinessReport int | PdfReport int "string list"

datatype task =
    FinishLoadAnalytics
  | FinishLoadCustomers
  | FinishLoadInventory
  | BusinessReportTimer
  | PdfReportTimer

text \<open>
  The fields of the application object, then the page (\<open>chatMessages\<close> is \<open>None\<close> when
  the page has no \<^verbatim>\<open>.chat-messages\<close> element; \<open>reportProgress\<close> counts the elements
  with id \<^verbatim>\<open>reportProgress\<close>; \<open>elementIds\<close> lists the element ids of the static page),
  then the browser: the clock read by \<^verbatim>\<open>Date.now()\<close> (an event handler runs to
  completion within one reading), the results of successive calls of \<^verbatim>\<open>Math.random()\<close>
  with the number of calls made so far, the utterances handed to speech synthesis, the
  files offered for download, and the continuations (timers, pending fetches) not yet run.
\<close>

record app =
  isListening :: bool
  recognition :: "recognizer option"
  synthesis :: bool
  currentSection :: string
  realTimeData :: metrics
  notifications :: "notification list"
  isDarkMode :: bool
  userId :: "real option"
  chatMessages :: "node list option"
  reportProgress :: nat
  elementIds :: "string list"
  clock :: int
  random :: "nat \<Rightarrow> real"
  draws :: nat
  spoken :: "string list"
  downloads :: "download list"
  pending :: "task list"

subsection \<open>Chat transcript\<close>

definition appendChild :: "node \<Rightarrow> app \<Rightarrow> app" where
  "appendChild n s =
     (case chatMessages s of
        None \<Rightarrow> s
      | Some ns \<Rightarrow> s\<lparr>chatMessages := Some (ns @ [n])\<rparr>)"

definition addUserMessage :: "string \<Rightarrow> string \<Rightarrow> app \<Rightarrow> app" where
  "addUserMessage msg inputType s = appendChild (MessageGroup ''user'' msg inputType None None) s"

definition addAIMessage :: "string \<Rightarrow> string option \<Rightarrow> real option \<Rightarrow> app \<Rightarrow> app" where
  "addAIMessage msg intent confidence s =
     appendChild (MessageGroup ''ai'' msg ''text'' intent confidence) s"

definition addQuickReplies :: "string list \<Rightarrow> app \<Rightarrow> app" where
  "addQuickReplies suggestions s =
     (if suggestions \<noteq> [] then appendChild (QuickReplies suggestions) s else s)"

definition addSystemMessage :: "string \<Rightarrow> string \<Rightarrow> app \<Rightarrow> app" where
  "addSystemMessage msg ty s = appendChild (SystemMessage msg ty) s"

definition showTypingIndicator :: "app \<Rightarrow> app" where
  "showTypingIndicator s = appendChild TypingIndicator s"

text \<open>\<^verbatim>\<open>getElementById('typingIndicator')\<close> finds the first such element; it is removed.\<close>

definition hideTypingIndicator :: "app \<Rightarrow> app" where
  "hideTypingIndicator s = s\<lparr>chatMessages := map_option (remove1 TypingIndicator) (chatMessages s)\<rparr>"

definition speakResponse :: "string \<Rightarrow> app \<Rightarrow> app" where
  "speakResponse txt s = (if synthesis s then s\<lparr>spoken := spoken s @ [txt]\<rparr> else s)"

subsection \<open>Message dispatcher\<close>

definition bikeReply :: string where
  "bikeReply = ''We have several excellent bikes under 1 lakh! Our popular models include: Honda CB Shine (''
     @ rupee @ ''72,000), Bajaj Pulsar 125 ('' @ rupee @ ''94,000), and TVS Raider 125 ('' @ rupee
     @ ''85,000). All come with great mileage and warranty. Would you like to know more about any specific model?''"

definition testRideReply :: string where
  "testRideReply = ''I'd be happy to help you book a test ride! Please provide your name, contact number, and preferred date. We have slots available from Monday to Saturday, 10 AM to 6 PM. Which bike would you like to test ride?''"

definition emiReply :: string where
  "emiReply = ''We offer flexible EMI options starting from '' @ rupee @ ''2,500 per month! We work with all major banks and NBFCs. For a ''
     @ rupee @ ''1 lakh bike, you can get EMIs starting from '' @ rupee
     @ ''3,000 for 36 months. Lower interest rates available for salaried professionals. Shall I calculate EMI for a specific model?''"

definition serviceReply :: string where
  "serviceReply = ''We offer comprehensive service packages: Basic Service ('' @ rupee @ ''800), Complete Service (''
     @ rupee @ ''1,500), and Premium Care ('' @ rupee
     @ ''2,500). Includes engine oil change, brake check, tire inspection, and 20-point check. First service is free! Which package interests you?''"

definition genericReply :: string where
  "genericReply = ''Thank you for your interest! I can help you with bike information, pricing, test rides, EMI options, and service bookings. What would you like to know more about?''"

definition getDemoResponse :: "string \<Rightarrow> string" where
  "getDemoResponse message =
     (let msg = toLowerCase message in
      if includes_str msg ''bike'' \<or> includes_str msg ''under'' \<or> includes_str msg ''lakh'' then bikeReply
      else if includes_str msg ''test ride'' \<or> includes_str msg ''book'' then testRideReply
      else if includes_str msg ''emi'' \<or> includes_str msg ''finance'' then emiReply
      else if includes_str msg ''service'' \<or> includes_str msg ''maintenance'' then serviceReply
      else genericReply)"

text \<open>
  The body the chat service answers with, after \<^verbatim>\<open>response.json()\<close>: each field may be
  absent. The remote call either rejects (\<open>NetworkError\<close>), or resolves to a body that
  cannot be read (\<open>InvalidJson\<close>: \<^verbatim>\<open>response.json()\<close> rejects, or yields \<^verbatim>\<open>null\<close>, on
  which reading a field throws), or to a payload.
\<close>

record chat_payload =
  response :: "string option"
  intent :: "string option"
  confidence :: "real option"
  suggestions :: "string list option"

datatype fetch_outcome = NetworkError | InvalidJson | Payload chat_payload

text \<open>The \<^verbatim>\<open>catch\<close> block of \<^verbatim>\<open>processMessage\<close>.\<close>

definition demoFallback :: "string \<Rightarrow> app \<Rightarrow> app" where
  "demoFallback message s =
     (let s1 = hideTypingIndicator s;
          demoResponse = getDemoResponse message
      in speakResponse demoResponse (addAIMessage demoResponse None None s1))"

text \<open>
  \<^verbatim>\<open>processMessage\<close>, from the call to the point where its promise settles. The session id
  is drawn once; \<open>userId\<close> keeps the draw it is printed from. \<^verbatim>\<open>if (data.response)\<close> holds
  for a string that is present and not empty.
\<close>

definition processMessage :: "fetch_outcome \<Rightarrow> string \<Rightarrow> app \<Rightarrow> app" where
  "processMessage outcome message s =
     (let s1 = showTypingIndicator s;
          s2 = (if userId s1 = None
                then s1\<lparr>userId := Some (random s1 (draws s1)), draws := Suc (draws s1)\<rparr>
                else s1)
      in case outcome of
           NetworkError \<Rightarrow> demoFallback message s2
         | InvalidJson \<Rightarrow> demoFallback message s2
         | Payload data \<Rightarrow>
             (let s3 = hideTypingIndicator s2 in
              case response data of
                None \<Rightarrow> s3
              | Some r \<Rightarrow>
                  if r = [] then s3
                  else
                    (let s4 = addAIMessage r (intent data) (confidence data) s3;
                         s5 = (case suggestions data of
                                 None \<Rightarrow> s4
                               | Some sg \<Rightarrow> if length sg > 0 then addQuickReplies sg s4 else s4)
                     in speakResponse r s5)))"

definition handleVoiceInput :: "fetch_outcome \<Rightarrow> string \<Rightarrow> app \<Rightarrow> app" where
  "handleVoiceInput outcome transcript s =
     processMessage outcome transcript (addUserMessage transcript ''voice'' s)"

text \<open>
  \<^verbatim>\<open>sendTextMessage\<close> reads the text input (\<open>txt\<close>), trims it, and sends it when something
  is left.
\<close>

definition isWhiteSpace :: "char \<Rightarrow> bool" where
  "isWhiteSpace c = (c \<in> set [CHR '' '', CHR 0x09, CHR 0x0A, CHR 0x0B, CHR 0x0C, CHR 0x0D])"

definition trim :: "string \<Rightarrow> string" where
  "trim s = rev (dropWhile isWhiteSpace (rev (dropWhile isWhiteSpace s)))"

definition sendTextMessage :: "fetch_outcome \<Rightarrow> string \<Rightarrow> app \<Rightarrow> app" where
  "sendTextMessage outcome txt s =
     (let message = trim txt in
      if message \<noteq> [] then processMessage outcome message (addUserMessage message ''text'' s)
      else s)"

definition isQuickReplies :: "node \<Rightarrow> bool" where
  "isQuickReplies n = (case n of QuickReplies _ \<Rightarrow> True | _ \<Rightarrow> False)"

definition sendQuickReply :: "fetch_outcome \<Rightarrow> string \<Rightarrow> app \<Rightarrow> app" where
  "sendQuickReply outcome suggestion s =
     (let s1 = s\<lparr>chatMessages := map_option (filter (\<lambda>n. \<not> isQuickReplies n)) (chatMessages s)\<rparr>
      in processMessage outcome suggestion (addUserMessage suggestion ''text'' s1))"

text \<open>Counting the entries of the transcript by speaker.\<close>

definition isFrom :: "string \<Rightarrow> node \<Rightarrow> bool" where
  "isFrom sender n = (case n of MessageGroup sd _ _ _ _ \<Rightarrow> sd = sender | _ \<Rightarrow> False)"

definition entries :: "string \<Rightarrow> app \<Rightarrow> nat" where
  "entries sender s = (case chatMessages s of None \<Rightarrow> 0 | Some ns \<Rightarrow> length (filter (isFrom sender) ns))"

subsection \<open>Construction\<close>

text \<open>
  The fields as the constructor sets them. What the constructor does not decide is a
  parameter: whether \<^verbatim>\<open>window.speechSynthesis\<close> exists, the chat container and the
  element ids of the page, the clock and the random numbers of the browser.
\<close>

definition constructor :: "bool \<Rightarrow> node list option \<Rightarrow> string list \<Rightarrow> int \<Rightarrow> (nat \<Rightarrow> real) \<Rightarrow> app" where
  "constructor syn chat ids t rnd =
     \<lparr>isListening = False, recognition = None, synthesis = syn, currentSection = ''dashboard'',
      realTimeData = \<lparr>conversations = 1247, leads = 89, revenue = 52400, satisfaction = 96\<rparr>,
      notifications = [], isDarkMode = False, userId = None, chatMessages = chat,
      reportProgress = 0, elementIds = ids, clock = t, random = rnd, draws = 0,
      spoken = [], downloads = [], pending = []\<rparr>"

text \<open>Whether a remote outcome makes \<^verbatim>\<open>processMessage\<close> reach a call of \<^verbatim>\<open>addAIMessage\<close>.\<close>

definition replies :: "fetch_outcome \<Rightarrow> bool" where
  "replies outcome =
     (case outcome of
        Payload data \<Rightarrow> (case response data of None \<Rightarrow> False | Some r \<Rightarrow> r \<noteq> [])
      | _ \<Rightarrow> True)"

subsection \<open>Metrics refresh\<close>

text \<open>
  \<^verbatim>\<open>Math.floor(Math.random() * n)\<close>: the next random number is consumed. The product is
  taken in the reals; for the factors used here the rounding of the floating-point product
  does not reach \<open>n\<close>.
\<close>

definition randomBelow :: "int \<Rightarrow> app \<Rightarrow> int \<times> app" where
  "randomBelow n s = (\<lfloor>random s (draws s) * of_int n\<rfloor>, s\<lparr>draws := Suc (draws s)\<rparr>)"

text \<open>
  \<^verbatim>\<open>updateSystemMetrics\<close> draws three numbers and writes them to the page only;
  \<^verbatim>\<open>updateStatsCards\<close> and \<^verbatim>\<open>updateDashboardMetrics\<close> write to the page only.
\<close>

definition updateSystemMetrics :: "app \<Rightarrow> app" where
  "updateSystemMetrics s = s\<lparr>draws := draws s + 3\<rparr>"

text \<open>One tick of the interval started by \<^verbatim>\<open>startRealTimeUpdates\<close>.\<close>

definition realTimeUpdatesTick :: "app \<Rightarrow> app" where
  "realTimeUpdatesTick s =
     (let (a, s1) = randomBelow 3 s;
          (b, s2) = randomBelow 2 s1;
          (c, s3) = randomBelow 1000 s2;
          d = realTimeData s3;
          s4 = s3\<lparr>realTimeData := d\<lparr>conversations := conversations d + a,
                                      leads := leads d + b,
                                      revenue := revenue d + c\<rparr>\<rparr>
      in if currentSection s4 = ''dashboard'' then updateSystemMetrics s4 else s4)"

definition updateRealTimeMetrics :: "app \<Rightarrow> app" where
  "updateRealTimeMetrics s =
     (let (a, s1) = randomBelow 5 s;
          (b, s2) = randomBelow 2 s1;
          (c, s3) = randomBelow 2000 s2;
          d = realTimeData s3
      in s3\<lparr>realTimeData := d\<lparr>conversations := conversations d + a,
                                 leads := leads d + b,
                                 revenue := revenue d + c\<rparr>\<rparr>)"

text \<open>
  The two intervals that refresh the metrics: the one of \<^verbatim>\<open>startRealTimeUpdates\<close> and the
  one of \<^verbatim>\<open>startRealTimeMonitoring\<close>, which calls \<^verbatim>\<open>updateRealTimeMetrics\<close>.
\<close>

datatype refresh = RealTimeUpdates | RealTimeMonitoring

fun refreshTick :: "refresh \<Rightarrow> app \<Rightarrow> app" where
  "refreshTick RealTimeUpdates s = realTimeUpdatesTick s"
| "refreshTick RealTimeMonitoring s = updateRealTimeMetrics s"

definition refreshTicks :: "refresh list \<Rightarrow> app \<Rightarrow> app" where
  "refreshTicks ts s = foldl (\<lambda>s t. refreshTick t s) s ts"

subsection \<open>Notification feed\<close>

definition addNotification :: "string \<Rightarrow> string \<Rightarrow> app \<Rightarrow> app" where
  "addNotification msg ty s =
     addSystemMessage msg ty
       (s\<lparr>notifications :=
            \<lparr>notif_id = clock s, notif_message = msg, notif_type = ty,
             timestamp = clock s, read = False\<rparr> # notifications s\<rparr>)"

text \<open>
  A call of \<^verbatim>\<open>addNotification\<close> at the moment the clock reads \<open>now\<close>, and a sequence of
  such calls.
\<close>

fun post :: "int \<times> string \<times> string \<Rightarrow> app \<Rightarrow> app" where
  "post (now, msg, ty) s = addNotification msg ty (s\<lparr>clock := now\<rparr>)"

definition postAll :: "(int \<times> string \<times> string) list \<Rightarrow> app \<Rightarrow> app" where
  "postAll ps s = foldl (\<lambda>s p. post p s) s ps"

fun posted :: "int \<times> string \<times> string \<Rightarrow> notification" where
  "posted (now, msg, ty) =
     \<lparr>notif_id = now, notif_message = msg, notif_type = ty, timestamp = now, read = False\<rparr>"

subsection \<open>Voice capture\<close>

definition warningSign :: string where
  "warningSign = [CHR 0xE2, CHR 0x9A, CHR 0xA0, CHR 0xEF, CHR 0xB8, CHR 0x8F]"

definition microphone :: string where
  "microphone = [CHR 0xF0, CHR 0x9F, CHR 0x8E, CHR 0xA4]"

definition crossMark :: string where
  "crossMark = [CHR 0xE2, CHR 0x9D, CHR 0x8C]"

text \<open>
  \<^verbatim>\<open>initSpeechRecognition\<close>; \<open>supported\<close> says whether the window has
  \<^verbatim>\<open>SpeechRecognition\<close> or \<^verbatim>\<open>webkitSpeechRecognition\<close>.
\<close>

definition initSpeechRecognition :: "bool \<Rightarrow> app \<Rightarrow> app" where
  "initSpeechRecognition supported s =
     (if supported then s\<lparr>recognition := Some \<lparr>lang = ''en-US'', onresult = RawResult\<rparr>\<rparr>
      else addSystemMessage (warningSign @ '' Speech recognition not supported in this browser.'')
             ''warning'' s)"

text \<open>
  \<^verbatim>\<open>startListening\<close>; \<open>startThrows\<close> says whether \<^verbatim>\<open>recognition.start()\<close> throws (it does
  when capture has already started). The call itself changes no field: the platform
  answers with the events below.
\<close>

definition startListening :: "bool \<Rightarrow> app \<Rightarrow> app" where
  "startListening startThrows s =
     (case recognition s of
        None \<Rightarrow> s
      | Some r \<Rightarrow>
          if startThrows then addSystemMessage ''Could not start voice recognition.'' ''error'' s
          else s)"

definition stopListening :: "app \<Rightarrow> app" where
  "stopListening s = s"

definition onstart :: "app \<Rightarrow> app" where
  "onstart s = addSystemMessage (microphone @ '' Listening...'') ''info'' (s\<lparr>isListening := True\<rparr>)"

definition onerror :: "app \<Rightarrow> app" where
  "onerror s =
     (addSystemMessage (crossMark @ '' Voice recognition error. Please try again.'') ''error'' s)
       \<lparr>isListening := False\<rparr>"

definition onend :: "app \<Rightarrow> app" where
  "onend s = s\<lparr>isListening := False\<rparr>"


subsection \<open>Actions bound to voice commands\<close>

definition checkMark :: string where
  "checkMark = [CHR 0xE2, CHR 0x9C, CHR 0x85]"

definition palette :: string where
  "palette = [CHR 0xF0, CHR 0x9F, CHR 0x8E, CHR 0xA8]"

definition clipboard :: string where
  "clipboard = [CHR 0xF0, CHR 0x9F, CHR 0x93, CHR 0x8B]"

definition arrows :: string where
  "arrows = [CHR 0xF0, CHR 0x9F, CHR 0x94, CHR 0x84]"

definition pageSign :: string where
  "pageSign = [CHR 0xF0, CHR 0x9F, CHR 0x93, CHR 0x84]"

definition barChart :: string where
  "barChart = [CHR 0xF0, CHR 0x9F, CHR 0x93, CHR 0x8A]"

definition busts :: string where
  "busts = [CHR 0xF0, CHR 0x9F, CHR 0x91, CHR 0xA5]"

definition package :: string where
  "package = [CHR 0xF0, CHR 0x9F, CHR 0x93, CHR 0xA6]"

definition dquote :: string where
  "dquote = [CHR 0x22]"

text \<open>
  The three section loaders are asynchronous: they post a message, start a fetch, and
  finish later. The part after the fetch is left as a pending continuation.
\<close>

definition loadAnalyticsSection :: "app \<Rightarrow> app" where
  "loadAnalyticsSection s =
     (let s1 = addSystemMessage (barChart @ '' Loading real-time analytics data...'') ''info'' s
      in s1\<lparr>pending := pending s1 @ [FinishLoadAnalytics]\<rparr>)"

definition loadCustomersSection :: "app \<Rightarrow> app" where
  "loadCustomersSection s =
     (let s1 = addSystemMessage (busts @ '' Loading real-time customer data...'') ''info'' s
      in s1\<lparr>pending := pending s1 @ [FinishLoadCustomers]\<rparr>)"

definition loadInventorySection :: "app \<Rightarrow> app" where
  "loadInventorySection s =
     (let s1 = addSystemMessage (package @ '' Loading real-time inventory data...'') ''info'' s
      in s1\<lparr>pending := pending s1 @ [FinishLoadInventory]\<rparr>)"

text \<open>
  \<^verbatim>\<open>switchSection\<close>. The classes it sets on navigation items and sections are not part of
  the state; which elements exist decides whether the placeholder message is posted.
\<close>

definition switchSection :: "string \<Rightarrow> app \<Rightarrow> app" where
  "switchSection sectionName s =
     (let found = (sectionName \<in> set (elementIds s) \<or> (sectionName @ ''Section'') \<in> set (elementIds s));
          s1 = (if \<not> found \<and> ''assistant'' \<in> set (elementIds s)
                then addSystemMessage
                       (clipboard @ '' '' @ sectionName
                          @ '' section is under development. Showing AI Assistant instead.'')
                       ''info'' s
                else s);
          s2 = s1\<lparr>currentSection := sectionName\<rparr>;
          s3 = (if sectionName = ''analytics'' then loadAnalyticsSection s2
                else if sectionName = ''customers'' then loadCustomersSection s2
                else if sectionName = ''inventory'' then loadInventorySection s2
                else s2)
      in addSystemMessage (pageSign @ '' Switched to '' @ sectionName @ '' section'') ''info'' s3)"

definition toggleTheme :: "app \<Rightarrow> app" where
  "toggleTheme s =
     (let s1 = s\<lparr>isDarkMode := \<not> isDarkMode s\<rparr>
      in addNotification
           (palette @ '' Switched to '' @ (if isDarkMode s1 then ''dark'' else ''light'') @ '' mode'')
           ''info'' s1)"

definition generateBusinessReport :: "app \<Rightarrow> app" where
  "generateBusinessReport s =
     (let s1 = addNotification (clipboard @ '' Generating comprehensive business report...'') ''info'' s
      in s1\<lparr>pending := pending s1 @ [BusinessReportTimer]\<rparr>)"


definition refreshAllData :: "app \<Rightarrow> app" where
  "refreshAllData s =
     (let s1 = addNotification (arrows @ '' Refreshing all data sources...'') ''info'' s
      in if currentSection s1 = ''analytics'' then loadAnalyticsSection s1
         else if currentSection s1 = ''customers'' then loadCustomersSection s1
         else if currentSection s1 = ''inventory'' then loadInventorySection s1
         else updateRealTimeMetrics s1)"

definition exportData :: "app \<Rightarrow> app" where
  "exportData s =
     addSystemMessage ''Data exported successfully!'' ''success''
       (s\<lparr>downloads := downloads s @ [DataExport (clock s)]\<rparr>)"

fun join :: "string \<Rightarrow> string list \<Rightarrow> string" where
  "join sep [] = []"
| "join sep [x] = x"
| "join sep (x # y # ys) = x @ sep @ join sep (y # ys)"

datatype action =
    SwitchSection string
  | GenerateBusinessReport
  | RefreshAllData
  | ToggleTheme
  | ExportData
  | ShowVoiceHelp

text \<open>The mapping \<^verbatim>\<open>voiceCommands\<close>, in the order its keys are declared.\<close>

definition voiceCommands :: "(string \<times> action) list" where
  "voiceCommands =
     [(''show dashboard'', SwitchSection ''dashboard''),
      (''open analytics'', SwitchSection ''analytics''),
      (''show customers'', SwitchSection ''customers''),
      (''check inventory'', SwitchSection ''inventory''),
      (''generate report'', GenerateBusinessReport),
      (''refresh data'', RefreshAllData),
      (''dark mode'', ToggleTheme),
      (''light mode'', ToggleTheme),
      (''export data'', ExportData),
      (''help me'', ShowVoiceHelp)]"

definition showVoiceHelp :: "app \<Rightarrow> app" where
  "showVoiceHelp s =
     addNotification
       (microphone @ '' Available voice commands: '' @ join '', '' (map fst voiceCommands))
       ''info'' s"

fun perform :: "action \<Rightarrow> app \<Rightarrow> app" where
  "perform (SwitchSection sectionName) s = switchSection sectionName s"
| "perform GenerateBusinessReport s = generateBusinessReport s"
| "perform RefreshAllData s = refreshAllData s"
| "perform ToggleTheme s = toggleTheme s"
| "perform ExportData s = exportData s"
| "perform ShowVoiceHelp s = showVoiceHelp s"

subsection \<open>Command recognizer\<close>

text \<open>
  \<^verbatim>\<open>setupVoiceCommands\<close> replaces the handler that \<^verbatim>\<open>initSpeechRecognition\<close> installed.
\<close>

definition setupVoiceCommands :: "app \<Rightarrow> app" where
  "setupVoiceCommands s =
     (case recognition s of
        None \<Rightarrow> s
      | Some r \<Rightarrow> s\<lparr>recognition := Some (r\<lparr>onresult := CommandResult\<rparr>)\<rparr>)"

text \<open>
  \<^verbatim>\<open>Object.keys(this.voiceCommands).find(cmd => transcript.includes(cmd))\<close>: the first key,
  in declared order, that occurs in the lower-cased transcript.
\<close>

definition recognize :: "string \<Rightarrow> string option" where
  "recognize transcript = find (\<lambda>cmd. includes_str transcript cmd) (map fst voiceCommands)"

text \<open>
  The handler installed by \<^verbatim>\<open>setupVoiceCommands\<close>, on an utterance delivered by the
  platform. \<open>outcome\<close> is what the chat service does if the utterance is forwarded. A key
  that \<^verbatim>\<open>find\<close> returns is a key of the mapping, so the last branch is never taken.
\<close>

definition commandResult :: "fetch_outcome \<Rightarrow> string \<Rightarrow> app \<Rightarrow> app" where
  "commandResult outcome utterance s =
     (let transcript = toLowerCase utterance in
      case recognize transcript of
        Some command \<Rightarrow>
          (case map_of voiceCommands command of
             Some act \<Rightarrow>
               addNotification (checkMark @ '' Executed: '' @ dquote @ command @ dquote) ''success''
                 (perform act s)
           | None \<Rightarrow> s)
      | None \<Rightarrow> handleVoiceInput outcome transcript s)"

text \<open>The \<^verbatim>\<open>onresult\<close> event, handled by whichever handler is installed.\<close>

definition recognitionResult :: "fetch_outcome \<Rightarrow> string \<Rightarrow> app \<Rightarrow> app" where
  "recognitionResult outcome utterance s =
     (case recognition s of
        None \<Rightarrow> s
      | Some r \<Rightarrow>
          (case onresult r of
             RawResult \<Rightarrow> handleVoiceInput outcome utterance s
           | CommandResult \<Rightarrow> commandResult outcome utterance s))"

subsection \<open>Data sources and mock data\<close>

text \<open>Printing a number in a template string, for the integers that occur here.\<close>

fun digits :: "nat \<Rightarrow> string" where
  "digits n =
     (if n < 10 then [char_of (48 + n)]
      else digits (n div 10) @ [char_of (48 + n mod 10)])"

declare digits.simps [simp del]

definition numberToString :: "int \<Rightarrow> string" where
  "numberToString i = (if i < 0 then ''-'' @ digits (nat (- i)) else digits (nat i))"

text \<open>The \<open>k\<close>-th next result of \<^verbatim>\<open>Math.random()\<close>.\<close>

definition draw :: "app \<Rightarrow> nat \<Rightarrow> real" where
  "draw s k = random s (draws s + k)"

text \<open>Indexing an array of strings; out of range JavaScript yields \<^verbatim>\<open>undefined\<close>.\<close>

definition pick :: "string list \<Rightarrow> int \<Rightarrow> string" where
  "pick xs i = (if 0 \<le> i \<and> nat i < length xs then xs ! nat i else ''undefined'')"

record inventory_item =
  inv_id :: int
  inv_model :: string
  inv_brand :: string
  inv_stock :: int
  inv_price :: int
  inv_status :: string
  inv_lastUpdated :: int

text \<open>
  \<open>cust_lastContact\<close> is the instant that \<^verbatim>\<open>toLocaleDateString\<close> prints;
  \<open>salesGrowth\<close> and \<open>revenueIncrease\<close> are the numbers that \<^verbatim>\<open>toFixed(1)\<close> prints.
\<close>

record customer =
  cust_id :: int
  cust_name :: string
  cust_email :: string
  cust_phone :: string
  cust_location :: string
  cust_avatar :: string
  cust_status :: string
  cust_lastContact :: int
  cust_purchaseHistory :: int
  cust_value :: int

record analytics =
  salesGrowth :: real
  customerAcquisition :: int
  revenueIncrease :: real
  quarterly :: "int list"
  monthly :: "int list"
  topModels :: "(string \<times> int) list"

definition brands :: "string list" where
  "brands = [''Honda'', ''TVS'', ''Bajaj'', ''Yamaha'', ''Hero'']"

definition statuses :: "string list" where
  "statuses = [''Prospect'', ''Lead'', ''Customer'', ''VIP'']"

text \<open>
  \<^verbatim>\<open>generateMockInventory\<close>: item \<open>i\<close> (from 0) takes three random numbers, for stock, price
  and status, in that order, after those of the items before it.
\<close>

definition mockInventoryItem :: "app \<Rightarrow> nat \<Rightarrow> inventory_item" where
  "mockInventoryItem s i =
     \<lparr>inv_id = int i + 1,
      inv_model = ''Model '' @ [char_of (65 + i mod 26)] @ numberToString (int i + 1),
      inv_brand = pick brands (int (i mod length brands)),
      inv_stock = \<lfloor>draw s (3 * i) * 50\<rfloor> + 10,
      inv_price = \<lfloor>draw s (3 * i + 1) * 100000\<rfloor> + 50000,
      inv_status = (if draw s (3 * i + 2) > 0.8 then ''Low Stock'' else ''In Stock''),
      inv_lastUpdated = clock s\<rparr>"

definition generateMockInventory :: "app \<Rightarrow> inventory_item list \<times> app" where
  "generateMockInventory s = (map (mockInventoryItem s) [0..<20], s\<lparr>draws := draws s + 60\<rparr>)"

definition names :: "string list" where
  "names = [''Rajesh Kumar'', ''Priya Sharma'', ''Amit Patel'', ''Sneha Singh'', ''Vikram Rao'']"

definition locations :: "string list" where
  "locations = [''Mumbai, Maharashtra'', ''Delhi, Delhi'', ''Bangalore, Karnataka'']"

text \<open>
  \<^verbatim>\<open>generateMockCustomers\<close>: customer \<open>i\<close> takes five random numbers, for phone, status,
  last contact, purchase history and value.
\<close>

definition mockCustomer :: "app \<Rightarrow> nat \<Rightarrow> customer" where
  "mockCustomer s i =
     \<lparr>cust_id = int i + 1,
      cust_name = pick names (int (i mod length names)) @ '' '' @ numberToString (int i + 1),
      cust_email = ''customer'' @ numberToString (int i + 1) @ ''@example.com'',
      cust_phone = ''+91 '' @ numberToString (\<lfloor>draw s (5 * i) * 9000000000\<rfloor> + 1000000000),
      cust_location = pick locations (int (i mod 3)),
      cust_avatar = ''https://api.dicebear.com/7.x/avataaars/svg?seed='' @ numberToString (int i),
      cust_status = pick statuses \<lfloor>draw s (5 * i + 1) * 4\<rfloor>,
      cust_lastContact = \<lfloor>of_int (clock s) - draw s (5 * i + 2) * 2592000000\<rfloor>,
      cust_purchaseHistory = \<lfloor>draw s (5 * i + 3) * 3\<rfloor>,
      cust_value = \<lfloor>draw s (5 * i + 4) * 500000\<rfloor> + 50000\<rparr>"

definition generateMockCustomers :: "app \<Rightarrow> customer list \<times> app" where
  "generateMockCustomers s = (map (mockCustomer s) [0..<15], s\<lparr>draws := draws s + 75\<rparr>)"

definition generateMockAnalytics :: "app \<Rightarrow> analytics \<times> app" where
  "generateMockAnalytics s =
     (\<lparr>salesGrowth = draw s 0 * 20 + 5,
       customerAcquisition = \<lfloor>draw s 1 * 30\<rfloor> + 20,
       revenueIncrease = draw s 2 * 25 + 10,
       quarterly = map (\<lambda>i. \<lfloor>draw s (3 + i) * 100\<rfloor>) [0..<4],
       monthly = map (\<lambda>i. \<lfloor>draw s (7 + i) * 80\<rfloor>) [0..<12],
       topModels = [(''Honda Activa'', \<lfloor>draw s 19 * 200\<rfloor> + 100),
                    (''TVS Jupiter'', \<lfloor>draw s 20 * 150\<rfloor> + 80),
                    (''Bajaj Pulsar'', \<lfloor>draw s 21 * 120\<rfloor> + 60)]\<rparr>,
      s\<lparr>draws := draws s + 22\<rparr>)"

text \<open>
  What a data source answers: nothing usable (the fetch rejects, or the body cannot be
  read as expected, so the \<^verbatim>\<open>catch\<close> block runs), or the data the live path works on.
\<close>

datatype 'a source = Unreachable | Live 'a

text \<open>The live inventory path is given the ids of the fetched posts.\<close>

definition liveInventoryItem :: "app \<Rightarrow> int list \<Rightarrow> nat \<Rightarrow> inventory_item" where
  "liveInventoryItem s posts i =
     \<lparr>inv_id = posts ! i,
      inv_model = ''Model '' @ [char_of (65 + i mod 26)] @ numberToString (posts ! i),
      inv_brand = pick brands (int (i mod 5)),
      inv_stock = \<lfloor>draw s (3 * i) * 50\<rfloor> + 10,
      inv_price = \<lfloor>draw s (3 * i + 1) * 100000\<rfloor> + 50000,
      inv_status = (if draw s (3 * i + 2) > 0.8 then ''Low Stock'' else ''In Stock''),
      inv_lastUpdated = clock s\<rparr>"

definition fetchInventoryData :: "int list source \<Rightarrow> app \<Rightarrow> inventory_item list \<times> app" where
  "fetchInventoryData src s =
     (case src of
        Unreachable \<Rightarrow> generateMockInventory s
      | Live posts \<Rightarrow>
          (map (liveInventoryItem s posts) [0..<length posts],
           s\<lparr>draws := draws s + 3 * length posts\<rparr>))"

record user =
  first :: string
  last :: string
  user_email :: string
  user_phone :: string
  city :: string
  state :: string
  picture :: string

definition liveCustomer :: "app \<Rightarrow> user list \<Rightarrow> nat \<Rightarrow> customer" where
  "liveCustomer s users i =
     \<lparr>cust_id = int i + 1,
      cust_name = first (users ! i) @ '' '' @ last (users ! i),
      cust_email = user_email (users ! i),
      cust_phone = user_phone (users ! i),
      cust_location = city (users ! i) @ '', '' @ state (users ! i),
      cust_avatar = picture (users ! i),
      cust_status = pick statuses \<lfloor>draw s (4 * i) * 4\<rfloor>,
      cust_lastContact = \<lfloor>of_int (clock s) - draw s (4 * i + 1) * 2592000000\<rfloor>,
      cust_purchaseHistory = \<lfloor>draw s (4 * i + 2) * 3\<rfloor>,
      cust_value = \<lfloor>draw s (4 * i + 3) * 500000\<rfloor> + 50000\<rparr>"

definition fetchCustomersData :: "user list source \<Rightarrow> app \<Rightarrow> customer list \<times> app" where
  "fetchCustomersData src s =
     (case src of
        Unreachable \<Rightarrow> generateMockCustomers s
      | Live users \<Rightarrow>
          (map (liveCustomer s users) [0..<length users],
           s\<lparr>draws := draws s + 4 * length users\<rparr>))"

text \<open>
  The remainder operator of JavaScript on numbers, with the sign of the dividend. The live
  analytics path is given the price it parsed.
\<close>

definition jsRem :: "real \<Rightarrow> real \<Rightarrow> real" where
  "jsRem x m = x - m * of_int (if 0 \<le> x / m then \<lfloor>x / m\<rfloor> else \<lceil>x / m\<rceil>)"

definition fetchAnalyticsData :: "real source \<Rightarrow> app \<Rightarrow> analytics \<times> app" where
  "fetchAnalyticsData src s =
     (case src of
        Unreachable \<Rightarrow> generateMockAnalytics s
      | Live btcPrice \<Rightarrow>
          (\<lparr>salesGrowth = jsRem btcPrice 100,
            customerAcquisition = \<lfloor>jsRem btcPrice 50\<rfloor> + 20,
            revenueIncrease = jsRem btcPrice 30,
            quarterly = map (\<lambda>i. \<lfloor>jsRem btcPrice (100 + of_nat i * 10)\<rfloor>) [0..<4],
            monthly = map (\<lambda>i. \<lfloor>jsRem btcPrice (80 + of_nat i * 5)\<rfloor>) [0..<12],
            topModels = [(''Honda Activa'', \<lfloor>jsRem btcPrice 200\<rfloor> + 100),
                         (''TVS Jupiter'', \<lfloor>jsRem btcPrice 150\<rfloor> + 80),
                         (''Bajaj Pulsar'', \<lfloor>jsRem btcPrice 120\<rfloor> + 60)]\<rparr>,
           s))"



subsection \<open>Report compilation\<close>

text \<open>
  The stages of \<^verbatim>\<open>generateAdvancedPDFReport\<close> in which a call into the PDF library or the
  page can throw, the exception that ends the \<^verbatim>\<open>try\<close> block, and the document as far as
  the state records it: its number of pages and the charts whose images were added.
\<close>

datatype stage =
    LoadLibrary
  | CoverPage
  | AnalyticsPage
  | CustomersPage
  | InventoryPage
  | InsightsPage
  | SaveFile

datatype failure = StageFailure stage

record pdf =
  pages :: nat
  images :: "string list"

text \<open>
  What the environment does during one compilation: in which stages a call throws (for
  \<open>LoadLibrary\<close>: \<^verbatim>\<open>window.jspdf\<close> is missing), which chart canvases the page has, for
  which of them the capture (\<^verbatim>\<open>html2canvas\<close>, \<^verbatim>\<open>toDataURL\<close>, \<^verbatim>\<open>addImage\<close>) throws, and
  what the three data sources answer.
\<close>

record report_env =
  throwsAt :: "stage \<Rightarrow> bool"
  chartElement :: "string \<Rightarrow> bool"
  captureThrows :: "string \<Rightarrow> bool"
  analyticsSource :: "real source"
  customersSource :: "user list source"
  inventorySource :: "int list source"

definition showReportProgress :: "app \<Rightarrow> app" where
  "showReportProgress s = s\<lparr>reportProgress := Suc (reportProgress s)\<rparr>"

definition hideReportProgress :: "app \<Rightarrow> app" where
  "hideReportProgress s = s\<lparr>reportProgress := reportProgress s - 1\<rparr>"

definition charts :: "string list" where
  "charts = [''salesChart'', ''modelsChart'', ''quarterlyChart'', ''revenueChart'']"

text \<open>
  The loop of \<^verbatim>\<open>addAnalyticsPage\<close> over the charts: a chart that is on the page is
  captured inside its own \<^verbatim>\<open>try\<close>; when the capture throws, the chart is skipped.
\<close>

definition captureCharts :: "report_env \<Rightarrow> string list" where
  "captureCharts env = filter (\<lambda>c. chartElement env c \<and> \<not> captureThrows env c) charts"

definition runStage :: "report_env \<Rightarrow> stage \<Rightarrow> pdf \<Rightarrow> failure + pdf" where
  "runStage env st doc = (if throwsAt env st then Inl (StageFailure st) else Inr doc)"

definition addPage :: "pdf \<Rightarrow> pdf" where
  "addPage doc = doc\<lparr>pages := Suc (pages doc)\<rparr>"

definition addAnalyticsPage :: "report_env \<Rightarrow> pdf \<Rightarrow> failure + pdf" where
  "addAnalyticsPage env doc =
     (if throwsAt env AnalyticsPage then Inl (StageFailure AnalyticsPage)
      else Inr (doc\<lparr>images := images doc @ captureCharts env\<rparr>))"

text \<open>The pages, one after the other, then \<^verbatim>\<open>pdf.save\<close>: the first throw ends the sequence.\<close>

definition assemble :: "report_env \<Rightarrow> failure + pdf" where
  "assemble env =
     (case runStage env CoverPage \<lparr>pages = 1, images = []\<rparr> of
        Inl e \<Rightarrow> Inl e
      | Inr d1 \<Rightarrow>
     (case addAnalyticsPage env (addPage d1) of
        Inl e \<Rightarrow> Inl e
      | Inr d2 \<Rightarrow>
     (case runStage env CustomersPage (addPage d2) of
        Inl e \<Rightarrow> Inl e
      | Inr d3 \<Rightarrow>
     (case runStage env InventoryPage (addPage d3) of
        Inl e \<Rightarrow> Inl e
      | Inr d4 \<Rightarrow>
     (case runStage env InsightsPage (addPage d4) of
        Inl e \<Rightarrow> Inl e
      | Inr d5 \<Rightarrow> runStage env SaveFile d5)))))"

text \<open>
  The \<^verbatim>\<open>try\<close> block up to and including \<^verbatim>\<open>pdf.save\<close>. The three fetches never throw:
  each falls back to its mock generator.
\<close>

definition compileReport :: "report_env \<Rightarrow> app \<Rightarrow> (failure + pdf) \<times> app" where
  "compileReport env s =
     (if throwsAt env LoadLibrary then (Inl (StageFailure LoadLibrary), s)
      else
        (let (analyticsData, s1) = fetchAnalyticsData (analyticsSource env) s;
             (customersData, s2) = fetchCustomersData (customersSource env) s1;
             (inventoryData, s3) = fetchInventoryData (inventorySource env) s2
         in (assemble env, s3)))"






subsection \<open>What a settled dispatch leaves in the chat\<close>

text \<open>
  The nodes that \<^verbatim>\<open>processMessage\<close> has appended once it has settled, read off its
  branches, and what it means for suggestions to be stale: a block of quick replies
  with a user entry somewhere after it.
\<close>

definition replyNodes :: "fetch_outcome \<Rightarrow> string \<Rightarrow> node list" where
  "replyNodes outcome message =
     (case outcome of
        Payload data \<Rightarrow>
          (case response data of
             None \<Rightarrow> []
           | Some r \<Rightarrow>
               if r = [] then []
               else MessageGroup ''ai'' r ''text'' (intent data) (confidence data)
                      # (case suggestions data of
                           None \<Rightarrow> []
                         | Some sg \<Rightarrow> if sg = [] then [] else [QuickReplies sg]))
      | _ \<Rightarrow> [MessageGroup ''ai'' (getDemoResponse message) ''text'' None None])"

fun staleSuggestions :: "node list \<Rightarrow> bool" where
  "staleSuggestions [] = False"
| "staleSuggestions (n # ns) =
     ((isQuickReplies n \<and> list_ex (isFrom ''user'') ns) \<or> staleSuggestions ns)"

text \<open>
  What the browser guarantees of \<^verbatim>\<open>Math.random()\<close>, and the range of a metrics snapshot.
\<close>

definition validRandom :: "app \<Rightarrow> bool" where
  "validRandom s = (\<forall>n. 0 \<le> random s n \<and> random s n < 1)"

definition metricsInRange :: "metrics \<Rightarrow> bool" where
  "metricsInRange m = (0 \<le> conversations m \<and> 0 \<le> leads m \<and> 0 \<le> revenue m \<and> 0 \<le> satisfaction m \<and> satisfaction m \<le> 100)"

section \<open>Properties\<close>

lemma includes_str_sublist: "includes_str s sub = sublist sub s"
  by (induction s) (auto simp: sublist_Cons_right)

subsection \<open>Chat transcript and dispatcher\<close>

lemma chat_appendChild:
  "chatMessages (appendChild n s) = map_option (\<lambda>ns. ns @ [n]) (chatMessages s)"
  by (simp add: appendChild_def split: option.splits)

lemma chat_speakResponse: "chatMessages (speakResponse t s) = chatMessages s"
  by (simp add: speakResponse_def)

lemma chat_hideTypingIndicator:
  "chatMessages (hideTypingIndicator s) = map_option (remove1 TypingIndicator) (chatMessages s)"
  by (simp add: hideTypingIndicator_def)

lemma chat_demoFallback:
  "chatMessages (demoFallback message s) =
     map_option (\<lambda>ns. remove1 TypingIndicator ns @ [MessageGroup ''ai'' (getDemoResponse message) ''text'' None None])
       (chatMessages s)"
  by (simp add: demoFallback_def Let_def chat_speakResponse addAIMessage_def chat_appendChild
      chat_hideTypingIndicator option.map_comp comp_def)

lemma chat_processMessage_failure:
  assumes "outcome = NetworkError \<or> outcome = InvalidJson"
  shows "chatMessages (processMessage outcome message s) =
     map_option (\<lambda>ns. remove1 TypingIndicator (ns @ [TypingIndicator])
                        @ [MessageGroup ''ai'' (getDemoResponse message) ''text'' None None])
       (chatMessages s)"
  using assms
  by (auto simp add: processMessage_def Let_def chat_demoFallback showTypingIndicator_def
      chat_appendChild option.map_comp comp_def)



text \<open>
  C1, at the input where the code fails it. The remote call succeeds with a payload that
  has no \<^verbatim>\<open>response\<close> field: the typed message "hello" is appended as a user entry, the
  typing indicator is removed, and no assistant entry follows. The transcript then holds
  one user entry and no assistant entry.
\<close>

theorem absent_response_leaves_user_turn_unanswered:
  "entries ''user'' (sendTextMessage
       (Payload \<lparr>response = None, intent = None, confidence = None, suggestions = None\<rparr>)
       ''hello'' (constructor True (Some []) [] 0 (\<lambda>_. 0))) = 1 \<and>
   entries ''ai'' (sendTextMessage
       (Payload \<lparr>response = None, intent = None, confidence = None, suggestions = None\<rparr>)
       ''hello'' (constructor True (Some []) [] 0 (\<lambda>_. 0))) = 0"
  by (simp add: sendTextMessage_def trim_def isWhiteSpace_def processMessage_def Let_def
      constructor_def showTypingIndicator_def addUserMessage_def appendChild_def
      hideTypingIndicator_def entries_def isFrom_def)




subsection \<open>Metrics refresh and notification feed\<close>

lemma randomBelow_range:
  assumes "0 \<le> random s (draws s)" "random s (draws s) < 1" "0 < n"
  shows "0 \<le> fst (randomBelow n s) \<and> fst (randomBelow n s) < n"
proof -
  have "random s (draws s) * of_int n < of_int n" using assms by simp
  moreover have "0 \<le> random s (draws s) * of_int n" using assms by simp
  ultimately show ?thesis by (simp add: randomBelow_def floor_less_iff)
qed

lemma randomBelow_snd [simp]:
  "random (snd (randomBelow n s)) = random s"
  "realTimeData (snd (randomBelow n s)) = realTimeData s"
  "draws (snd (randomBelow n s)) = Suc (draws s)"
  by (simp_all add: randomBelow_def)

lemma realTimeUpdatesTick_metrics:
  assumes "validRandom s"
  shows "conversations (realTimeData s) \<le> conversations (realTimeData (realTimeUpdatesTick s))
       \<and> leads (realTimeData s) \<le> leads (realTimeData (realTimeUpdatesTick s))
       \<and> revenue (realTimeData s) \<le> revenue (realTimeData (realTimeUpdatesTick s))
       \<and> satisfaction (realTimeData (realTimeUpdatesTick s)) = satisfaction (realTimeData s)
       \<and> random (realTimeUpdatesTick s) = random s"
proof -
  obtain a s1 where 1: "randomBelow 3 s = (a, s1)" by force
  obtain b s2 where 2: "randomBelow 2 s1 = (b, s2)" by force
  obtain c s3 where 3: "randomBelow 1000 s2 = (c, s3)" by force
  have r1: "random s1 = random s" using 1 randomBelow_snd(1)[of 3 s] by simp
  have r2: "random s2 = random s" using 2 randomBelow_snd(1)[of 2 s1] r1 by simp
  have a: "0 \<le> a" using randomBelow_range[of s 3] assms 1 by (simp add: validRandom_def)
  have b: "0 \<le> b" using randomBelow_range[of s1 2] assms 2 r1 by (simp add: validRandom_def)
  have c: "0 \<le> c" using randomBelow_range[of s2 1000] assms 3 r2 by (simp add: validRandom_def)
  have d: "realTimeData s3 = realTimeData s" "random s3 = random s"
    using 1 2 3 by (auto simp: randomBelow_def)
  show ?thesis using a b c d
    by (simp add: realTimeUpdatesTick_def 1 2 3 Let_def updateSystemMetrics_def)
qed

lemma updateRealTimeMetrics_metrics:
  assumes "validRandom s"
  shows "conversations (realTimeData s) \<le> conversations (realTimeData (updateRealTimeMetrics s))
       \<and> leads (realTimeData s) \<le> leads (realTimeData (updateRealTimeMetrics s))
       \<and> revenue (realTimeData s) \<le> revenue (realTimeData (updateRealTimeMetrics s))
       \<and> satisfaction (realTimeData (updateRealTimeMetrics s)) = satisfaction (realTimeData s)
       \<and> random (updateRealTimeMetrics s) = random s"
proof -
  obtain a s1 where 1: "randomBelow 5 s = (a, s1)" by force
  obtain b s2 where 2: "randomBelow 2 s1 = (b, s2)" by force
  obtain c s3 where 3: "randomBelow 2000 s2 = (c, s3)" by force
  have r1: "random s1 = random s" using 1 randomBelow_snd(1)[of 5 s] by simp
  have r2: "random s2 = random s" using 2 randomBelow_snd(1)[of 2 s1] r1 by simp
  have a: "0 \<le> a" using randomBelow_range[of s 5] assms 1 by (simp add: validRandom_def)
  have b: "0 \<le> b" using randomBelow_range[of s1 2] assms 2 r1 by (simp add: validRandom_def)
  have c: "0 \<le> c" using randomBelow_range[of s2 2000] assms 3 r2 by (simp add: validRandom_def)
  have d: "realTimeData s3 = realTimeData s" "random s3 = random s"
    using 1 2 3 by (auto simp: randomBelow_def)
  show ?thesis using a b c d
    by (simp add: updateRealTimeMetrics_def 1 2 3 Let_def)
qed

lemma refreshTick_metrics:
  assumes "validRandom s"
  shows "conversations (realTimeData s) \<le> conversations (realTimeData (refreshTick t s))
       \<and> leads (realTimeData s) \<le> leads (realTimeData (refreshTick t s))
       \<and> revenue (realTimeData s) \<le> revenue (realTimeData (refreshTick t s))
       \<and> satisfaction (realTimeData (refreshTick t s)) = satisfaction (realTimeData s)
       \<and> random (refreshTick t s) = random s"
  using realTimeUpdatesTick_metrics[OF assms] updateRealTimeMetrics_metrics[OF assms]
  by (cases t) simp_all

lemma refreshTick_invariant:
  assumes "validRandom s" "metricsInRange (realTimeData s)"
  shows "validRandom (refreshTick t s) \<and> metricsInRange (realTimeData (refreshTick t s))"
  using refreshTick_metrics[OF assms(1), of t] assms
  by (simp add: validRandom_def metricsInRange_def)

lemma refreshTicks_invariant:
  assumes "validRandom s" "metricsInRange (realTimeData s)"
  shows "validRandom (refreshTicks ts s) \<and> metricsInRange (realTimeData (refreshTicks ts s))"
  using assms unfolding refreshTicks_def
proof (induction ts arbitrary: s)
  case Nil
  then show ?case by simp
next
  case (Cons t ts)
  then show ?case using refreshTick_invariant[of s t] by simp
qed

lemma constructor_invariant:
  assumes "\<forall>n. 0 \<le> rnd n \<and> rnd n < 1"
  shows "validRandom (constructor syn chat ids t0 rnd) \<and> metricsInRange (realTimeData (constructor syn chat ids t0 rnd))"
  using assms by (simp add: validRandom_def metricsInRange_def constructor_def)

text \<open>
  C3. In a state whose snapshot is in range (no field negative, satisfaction within
  0..100), as the constructor's is, a refresh tick of either interval does not decrease the
  conversations and leads counters, does not write the satisfaction percentage, and leaves
  the snapshot in range; the random numbers stay those of the browser, so the same holds
  for the tick after it.
\<close>

theorem metrics_refresh_monotone_bounded:
  assumes "validRandom s" and "metricsInRange (realTimeData s)"
  shows "conversations (realTimeData s) \<le> conversations (realTimeData (refreshTick t s))
       \<and> leads (realTimeData s) \<le> leads (realTimeData (refreshTick t s))
       \<and> satisfaction (realTimeData (refreshTick t s)) = satisfaction (realTimeData s)
       \<and> 0 \<le> satisfaction (realTimeData (refreshTick t s))
       \<and> satisfaction (realTimeData (refreshTick t s)) \<le> 100
       \<and> 0 \<le> conversations (realTimeData (refreshTick t s))
       \<and> 0 \<le> leads (realTimeData (refreshTick t s))
       \<and> 0 \<le> revenue (realTimeData (refreshTick t s))
       \<and> validRandom (refreshTick t s)
       \<and> metricsInRange (realTimeData (refreshTick t s))"
  using refreshTick_metrics[OF assms(1), of t] refreshTick_invariant[OF assms, of t]
  by (simp add: metricsInRange_def)

theorem metrics_refresh_monotone_bounded_witness:
  "validRandom (constructor True (Some []) [] 0 (\<lambda>_. 1/2))
   \<and> metricsInRange (realTimeData (constructor True (Some []) [] 0 (\<lambda>_. 1/2)))
   \<and> conversations (realTimeData (refreshTick RealTimeUpdates
         (constructor True (Some []) [] 0 (\<lambda>_. 1/2)))) = 1248
   \<and> conversations (realTimeData (refreshTick RealTimeMonitoring
         (constructor True (Some []) [] 0 (\<lambda>_. 1/2)))) = 1249
   \<and> metricsInRange (realTimeData (refreshTick RealTimeUpdates
         (constructor True (Some []) [] 0 (\<lambda>_. 1/2))))"
proof -
  have v: "validRandom (constructor True (Some []) [] 0 (\<lambda>_. 1/2))"
    by (simp add: validRandom_def constructor_def)
  have m: "metricsInRange (realTimeData (constructor True (Some []) [] 0 (\<lambda>_. 1/2)))"
    by (simp add: metricsInRange_def constructor_def)
  show ?thesis
    using v m metrics_refresh_monotone_bounded[OF v m, of RealTimeUpdates]
    by (simp add: realTimeUpdatesTick_def updateRealTimeMetrics_def randomBelow_def
        constructor_def updateSystemMetrics_def Let_def)
qed

text \<open>
  The snapshot stays in range along every run of ticks, from the constructor on, whatever
  section is shown.
\<close>

lemma refreshTicks_from_constructor:
  assumes "\<forall>n. 0 \<le> rnd n \<and> rnd n < 1"
  shows "metricsInRange (realTimeData (refreshTicks ts (constructor syn chat ids t0 rnd)))"
  using refreshTicks_invariant constructor_invariant[OF assms] by blast

lemma notifications_addNotification:
  "notifications (addNotification msg ty s) =
     \<lparr>notif_id = clock s, notif_message = msg, notif_type = ty, timestamp = clock s, read = False\<rparr>
       # notifications s"
  by (simp add: addNotification_def addSystemMessage_def appendChild_def split: option.splits)

lemma notifications_post: "notifications (post p s) = posted p # notifications s"
  by (cases p) (simp add: notifications_addNotification)

lemma notifications_postAll: "notifications (postAll ps s) = rev (map posted ps) @ notifications s"
  unfolding postAll_def
  by (induction ps arbitrary: s) (simp_all add: notifications_post)

lemma notif_id_posted: "notif_id (posted p) = fst p"
  by (cases p) simp

lemma feed_ids_in_post_order:
  "map notif_id (rev (take (length ps) (notifications (postAll ps s)))) = map fst ps"
proof -
  have "take (length ps) (notifications (postAll ps s)) = rev (map posted ps)"
    by (simp add: notifications_postAll)
  then show ?thesis by (simp add: notif_id_posted)
qed

text \<open>
  C4, amended. After N calls of \<^verbatim>\<open>addNotification\<close> the feed holds the N notifications in
  reverse post order, in front of what it held before. The id of each is the clock reading
  at its call: the ids in post order are the readings, so they are non-decreasing when the
  readings are, and strictly increasing when the readings are strictly increasing.
\<close>

theorem notification_feed_newest_first:
  "notifications (postAll ps s) = rev (map posted ps) @ notifications s
   \<and> map notif_id (rev (take (length ps) (notifications (postAll ps s)))) = map fst ps
   \<and> (sorted (map fst ps) \<longrightarrow>
        sorted (map notif_id (rev (take (length ps) (notifications (postAll ps s))))))
   \<and> (sorted_wrt (<) (map fst ps) \<longrightarrow>
        sorted_wrt (<) (map notif_id (rev (take (length ps) (notifications (postAll ps s))))))"
  unfolding feed_ids_in_post_order by (simp add: notifications_postAll)

theorem notification_feed_newest_first_witness:
  "notifications (postAll [(1000, ''a'', ''info''), (1001, ''b'', ''success'')] (constructor True (Some []) [] 0 (\<lambda>_. 0)))
     = [posted (1001, ''b'', ''success''), posted (1000, ''a'', ''info'')]
   \<and> sorted_wrt (<) (map notif_id (rev (take 2 (notifications
        (postAll [(1000, ''a'', ''info''), (1001, ''b'', ''success'')] (constructor True (Some []) [] 0 (\<lambda>_. 0)))))))"
  using notification_feed_newest_first[of "[(1000, ''a'', ''info''), (1001, ''b'', ''success'')]"
      "constructor True (Some []) [] 0 (\<lambda>_. 0)"]
  by (simp add: constructor_def)

text \<open>
  C4 as stated fails: two notifications posted within the same millisecond get the same id.
\<close>

theorem notification_ids_same_millisecond_counterexample:
  "\<not> sorted_wrt (<) (map notif_id (rev (notifications
        (postAll [(1000, ''a'', ''info''), (1000, ''b'', ''info'')] (constructor True (Some []) [] 0 (\<lambda>_. 0))))))"
  by (simp add: postAll_def addNotification_def addSystemMessage_def appendChild_def constructor_def)


subsection \<open>Voice capture and command recognizer\<close>

text \<open>
  C5 as stated fails: on a platform without speech capture, \<^verbatim>\<open>startListening\<close> posts no
  notification at all.
\<close>

theorem startListening_unavailable_counterexample:
  "recognition (initSpeechRecognition False (constructor True (Some []) [] 0 (\<lambda>_. 0))) = None \<and>
   notifications (startListening False
      (initSpeechRecognition False (constructor True (Some []) [] 0 (\<lambda>_. 0)))) = []"
  by (simp add: startListening_def initSpeechRecognition_def addSystemMessage_def appendChild_def
      constructor_def)

text \<open>
  C5, amended. On a platform without speech capture \<^verbatim>\<open>initSpeechRecognition\<close> leaves
  \<^verbatim>\<open>recognition\<close> null, does not touch \<^verbatim>\<open>isListening\<close> or the notification feed, and
  appends one warning system message to the chat; after it \<^verbatim>\<open>startListening\<close> changes
  nothing: no field, no notification, no chat message, and no branch of it raises.
\<close>

theorem startListening_unavailable:
  assumes "recognition s = None" and "s' = initSpeechRecognition False s"
  shows "recognition s' = None \<and> isListening s' = isListening s \<and> notifications s' = notifications s
       \<and> chatMessages s' = map_option (\<lambda>ns. ns @ [SystemMessage
             (warningSign @ '' Speech recognition not supported in this browser.'') ''warning''])
           (chatMessages s)
       \<and> startListening startThrows s' = s'"
  using assms
  by (simp add: startListening_def initSpeechRecognition_def addSystemMessage_def appendChild_def
      split: option.splits)

theorem startListening_unavailable_witness:
  "isListening (initSpeechRecognition False (constructor True (Some []) [] 0 (\<lambda>_. 0))) = False
   \<and> startListening False (initSpeechRecognition False (constructor True (Some []) [] 0 (\<lambda>_. 0)))
       = initSpeechRecognition False (constructor True (Some []) [] 0 (\<lambda>_. 0))"
  using startListening_unavailable[of "constructor True (Some []) [] 0 (\<lambda>_. 0)" _ False, OF _ refl]
  by (simp add: constructor_def)

lemma recognize_hello: "recognize ''hello there'' = None"
  by code_simp

lemma lower_hello: "toLowerCase ''Hello There'' = ''hello there''"
  by code_simp

lemma demo_hello: "getDemoResponse ''hello there'' = genericReply"
  by code_simp

text \<open>
  C6, at the input where the code fails it. The utterance "Hello There" matches no
  trigger; the handler installed by \<^verbatim>\<open>setupVoiceCommands\<close> forwards the lower-cased
  transcript, so the user entry of the transcript reads "hello there", and that text is what
  the dispatcher is given.
\<close>

theorem unmatched_utterance_forwarded_lowercased:
  "chatMessages (recognitionResult NetworkError ''Hello There''
      (setupVoiceCommands (initSpeechRecognition True (constructor True (Some []) [] 0 (\<lambda>_. 0))))) =
     Some [MessageGroup ''user'' ''hello there'' ''voice'' None None,
           MessageGroup ''ai'' genericReply ''text'' None None]"
  by (simp add: recognitionResult_def setupVoiceCommands_def initSpeechRecognition_def constructor_def
      commandResult_def recognize_hello lower_hello demo_hello handleVoiceInput_def processMessage_def
      addUserMessage_def appendChild_def showTypingIndicator_def demoFallback_def Let_def
      hideTypingIndicator_def addAIMessage_def speakResponse_def)

lemma isDarkMode_appendChild [simp]: "isDarkMode (appendChild n s) = isDarkMode s"
  by (simp add: appendChild_def split: option.splits)

lemma isDarkMode_addNotification [simp]: "isDarkMode (addNotification msg ty s) = isDarkMode s"
  by (simp add: addNotification_def addSystemMessage_def)

lemma isDarkMode_toggleTheme: "isDarkMode (toggleTheme s) = (\<not> isDarkMode s)"
  by (simp add: toggleTheme_def Let_def)

lemma map_of_theme_commands:
  "map_of voiceCommands ''dark mode'' = Some ToggleTheme"
  "map_of voiceCommands ''light mode'' = Some ToggleTheme"
  by (simp_all add: voiceCommands_def)

text \<open>
  C10. "dark mode" and "light mode" are bound to the same action, \<^verbatim>\<open>toggleTheme\<close>, and an
  utterance (of ASCII characters) that the recognizer takes for either flips
  \<^verbatim>\<open>isDarkMode\<close> instead of setting the named theme: "light mode" said in light mode
  switches to dark mode.
\<close>

theorem dark_and_light_mode_both_toggle:
  assumes "recognition s = Some r" and "onresult r = CommandResult"
    and "recognize (toLowerCase utterance) = Some command"
    and "command = ''dark mode'' \<or> command = ''light mode''"
    and "isAscii utterance"
  shows "map_of voiceCommands command = Some ToggleTheme
       \<and> isDarkMode (recognitionResult outcome utterance s) = (\<not> isDarkMode s)"
  using assms(1-4)
  by (auto simp add: recognitionResult_def commandResult_def Let_def map_of_theme_commands
      isDarkMode_toggleTheme)

lemma recognize_light: "recognize (toLowerCase ''Light mode'') = Some ''light mode''"
  by code_simp

lemma isAscii_light: "isAscii ''Light mode''"
  by code_simp

theorem dark_and_light_mode_both_toggle_witness:
  "isAscii ''Light mode''
   \<and> \<not> isDarkMode (setupVoiceCommands (initSpeechRecognition True (constructor True (Some []) [] 0 (\<lambda>_. 0))))
   \<and> isDarkMode (recognitionResult NetworkError ''Light mode''
        (setupVoiceCommands (initSpeechRecognition True (constructor True (Some []) [] 0 (\<lambda>_. 0)))))"
  using dark_and_light_mode_both_toggle[of
      "setupVoiceCommands (initSpeechRecognition True (constructor True (Some []) [] 0 (\<lambda>_. 0)))"
      "\<lparr>lang = ''en-US'', onresult = CommandResult\<rparr>" "''Light mode''" "''light mode''" NetworkError]
  by (simp add: recognize_light isAscii_light setupVoiceCommands_def initSpeechRecognition_def
      constructor_def)


lemma entries_appendChild_system [simp]:
  "entries sender (appendChild (SystemMessage m ty) s) = entries sender s"
  by (simp add: entries_def appendChild_def isFrom_def split: option.splits)

lemma entries_addNotification [simp]:
  "entries sender (addNotification m ty s) = entries sender s"
  by (simp add: addNotification_def addSystemMessage_def entries_def appendChild_def isFrom_def
      split: option.splits)

lemma entries_chat_cong: "chatMessages s = chatMessages s' \<Longrightarrow> entries sender s = entries sender s'"
  by (simp add: entries_def)

lemma entries_addSystemMessage [simp]:
  "entries sender (addSystemMessage m ty s) = entries sender s"
  by (simp add: addSystemMessage_def)

lemma entries_pending [simp]: "entries sender (s\<lparr>pending := p\<rparr>) = entries sender s"
  by (simp add: entries_def)

lemma entries_currentSection [simp]: "entries sender (s\<lparr>currentSection := p\<rparr>) = entries sender s"
  by (simp add: entries_def)

lemma entries_downloads [simp]: "entries sender (s\<lparr>downloads := p\<rparr>) = entries sender s"
  by (simp add: entries_def)

lemma entries_isDarkMode [simp]: "entries sender (s\<lparr>isDarkMode := p\<rparr>) = entries sender s"
  by (simp add: entries_def)

lemma entries_loaders [simp]:
  "entries sender (loadAnalyticsSection s) = entries sender s"
  "entries sender (loadCustomersSection s) = entries sender s"
  "entries sender (loadInventorySection s) = entries sender s"
  by (simp_all add: loadAnalyticsSection_def loadCustomersSection_def loadInventorySection_def Let_def)

lemma chat_updateRealTimeMetrics: "chatMessages (updateRealTimeMetrics s) = chatMessages s"
  by (simp add: updateRealTimeMetrics_def randomBelow_def Let_def)

lemma entries_updateRealTimeMetrics [simp]:
  "entries sender (updateRealTimeMetrics s) = entries sender s"
  by (rule entries_chat_cong) (rule chat_updateRealTimeMetrics)

lemma entries_switchSection: "entries sender (switchSection n s) = entries sender s"
  by (simp add: switchSection_def Let_def)

lemma entries_perform: "entries sender (perform act s) = entries sender s"
proof (cases act)
  case (SwitchSection x1)
  then show ?thesis by (simp add: entries_switchSection)
next
  case GenerateBusinessReport
  then show ?thesis by (simp add: generateBusinessReport_def Let_def)
next
  case RefreshAllData
  then show ?thesis by (simp add: refreshAllData_def Let_def)
next
  case ToggleTheme
  then show ?thesis by (simp add: toggleTheme_def Let_def)
next
  case ExportData
  then show ?thesis by (simp add: exportData_def)
next
  case ShowVoiceHelp
  then show ?thesis by (simp add: showVoiceHelp_def)
qed

lemma recognize_in_mapping:
  assumes "recognize transcript = Some command"
  shows "\<exists>act. map_of voiceCommands command = Some act"
proof -
  have "command \<in> set (map fst voiceCommands)"
    using assms unfolding recognize_def by (auto simp: find_Some_iff)
  then show ?thesis by (metis map_of_eq_None_iff not_None_eq set_map)
qed

lemma recognize_first_match:
  assumes "recognize transcript = Some command"
  shows "\<exists>i < length voiceCommands. fst (voiceCommands ! i) = command \<and> includes_str transcript command
           \<and> (\<forall>j < i. \<not> includes_str transcript (fst (voiceCommands ! j)))"
  using assms unfolding recognize_def by (auto simp: find_Some_iff)

lemma commandResult_matched:
  assumes "recognize (toLowerCase utterance) = Some command" and "isAscii utterance"
  shows "\<exists>act. map_of voiceCommands command = Some act
           \<and> commandResult outcome utterance s =
               addNotification (checkMark @ '' Executed: '' @ dquote @ command @ dquote) ''success''
                 (perform act s)
           \<and> entries ''user'' (commandResult outcome utterance s) = entries ''user'' s
           \<and> hd (notifications (commandResult outcome utterance s)) =
               \<lparr>notif_id = clock (perform act s),
                notif_message = checkMark @ '' Executed: '' @ dquote @ command @ dquote,
                notif_type = ''success'', timestamp = clock (perform act s), read = False\<rparr>"
proof -
  obtain act where a: "map_of voiceCommands command = Some act"
    using recognize_in_mapping[OF assms(1)] by blast
  have "commandResult outcome utterance s =
          addNotification (checkMark @ '' Executed: '' @ dquote @ command @ dquote) ''success''
            (perform act s)"
    by (simp add: commandResult_def assms(1) a)
  then show ?thesis using a
    by (simp add: entries_perform notifications_addNotification)
qed

lemma recognize_dashboard:
  "recognize (toLowerCase ''please show dashboard now'') = Some ''show dashboard''"
  by code_simp

lemma show_dashboard_example:
  "currentSection (recognitionResult outcome ''please show dashboard now''
      (setupVoiceCommands (initSpeechRecognition True (constructor True (Some []) [] 0 (\<lambda>_. 0)))))
     = ''dashboard'' \<and>
   chatMessages (recognitionResult outcome ''please show dashboard now''
      (setupVoiceCommands (initSpeechRecognition True (constructor True (Some []) [] 0 (\<lambda>_. 0)))))
     = Some [SystemMessage (pageSign @ '' Switched to dashboard section'') ''info'',
             SystemMessage (checkMark @ '' Executed: '' @ dquote @ ''show dashboard'' @ dquote) ''success'']"
  by (simp add: recognitionResult_def setupVoiceCommands_def initSpeechRecognition_def constructor_def
      commandResult_def recognize_dashboard voiceCommands_def switchSection_def Let_def
      addNotification_def addSystemMessage_def appendChild_def)

subsection \<open>Settled dispatches and quick replies\<close>

lemma chat_userId_draws [simp]: "chatMessages (s\<lparr>userId := u, draws := d\<rparr>) = chatMessages s"
  by simp

lemma chat_addQuickReplies:
  "chatMessages (addQuickReplies sg s) =
     map_option (\<lambda>ns. ns @ (if sg = [] then [] else [QuickReplies sg])) (chatMessages s)"
  by (simp add: addQuickReplies_def chat_appendChild option.map_ident)

lemma chat_processMessage:
  "chatMessages (processMessage outcome message s) =
     map_option (\<lambda>ns. remove1 TypingIndicator (ns @ [TypingIndicator]) @ replyNodes outcome message)
       (chatMessages s)"
proof (cases outcome)
  case NetworkError
  then show ?thesis by (simp add: chat_processMessage_failure replyNodes_def)
next
  case InvalidJson
  then show ?thesis by (simp add: chat_processMessage_failure replyNodes_def)
next
  case (Payload data)
  show ?thesis
  proof (cases "chatMessages s")
    case None
    then show ?thesis
      by (simp add: Payload processMessage_def Let_def showTypingIndicator_def chat_appendChild
          chat_hideTypingIndicator chat_speakResponse addAIMessage_def chat_addQuickReplies
          split: option.splits)
  next
    case (Some ns)
    then show ?thesis
      by (simp add: Payload processMessage_def Let_def showTypingIndicator_def chat_appendChild
          chat_hideTypingIndicator chat_speakResponse addAIMessage_def chat_addQuickReplies
          replyNodes_def split: option.splits)
  qed
qed

lemma filter_remove1_other: "\<not> P x \<Longrightarrow> filter P (remove1 x xs) = filter P xs"
  by (induction xs) auto

lemma isFrom_TypingIndicator [simp]: "\<not> isFrom sender TypingIndicator"
  by (simp add: isFrom_def)

lemma isQuickReplies_simps [simp]:
  "\<not> isQuickReplies TypingIndicator" "isQuickReplies (QuickReplies sg)"
  "\<not> isQuickReplies (MessageGroup a b c d e)" "\<not> isQuickReplies (SystemMessage m t)"
  by (simp_all add: isQuickReplies_def)

lemma isFrom_simps [simp]:
  "isFrom sender (MessageGroup a b c d e) = (a = sender)" "\<not> isFrom sender (QuickReplies sg)"
  "\<not> isFrom sender (SystemMessage m t)"
  by (simp_all add: isFrom_def)

lemma ai_replyNodes:
  "length (filter (isFrom ''ai'') (replyNodes outcome message)) = (if replies outcome then 1 else 0)"
  by (simp add: replyNodes_def replies_def split: fetch_outcome.splits option.splits)

lemma user_replyNodes: "filter (isFrom ''user'') (replyNodes outcome message) = []"
  by (simp add: replyNodes_def split: fetch_outcome.splits option.splits)

lemma entries_ai_processMessage:
  assumes "chatMessages s \<noteq> None"
  shows "entries ''ai'' (processMessage outcome message s) =
           entries ''ai'' s + (if replies outcome then 1 else 0)"
proof -
  obtain ns where ns: "chatMessages s = Some ns" using assms by blast
  have "filter (isFrom ''ai'') (remove1 TypingIndicator (ns @ [TypingIndicator])) = filter (isFrom ''ai'') ns"
    by (simp add: filter_remove1_other)
  then show ?thesis
    using ai_replyNodes[of outcome message]
    by (simp add: entries_def chat_processMessage ns)
qed

lemma staleSuggestions_append:
  assumes "\<forall>n \<in> set xs. \<not> isQuickReplies n" and "\<forall>m \<in> set ys. \<not> isFrom ''user'' m"
  shows "\<not> staleSuggestions (xs @ ys)"
  using assms
proof (induction xs)
  case Nil
  then show ?case by (induction ys) (auto simp: list_ex_iff)
next
  case (Cons x xs)
  then show ?case by simp
qed

lemma chat_sendQuickReply:
  "chatMessages (sendQuickReply outcome suggestion s) =
     map_option (\<lambda>ns. remove1 TypingIndicator
                        (filter (\<lambda>n. \<not> isQuickReplies n) ns
                           @ [MessageGroup ''user'' suggestion ''text'' None None, TypingIndicator])
                        @ replyNodes outcome suggestion)
       (chatMessages s)"
  by (simp add: sendQuickReply_def Let_def chat_processMessage addUserMessage_def chat_appendChild
      option.map_comp comp_def)

lemma chat_sendTextMessage:
  assumes "trim txt \<noteq> []"
  shows "chatMessages (sendTextMessage outcome txt s) =
     map_option (\<lambda>ns. remove1 TypingIndicator
                        (ns @ [MessageGroup ''user'' (trim txt) ''text'' None None, TypingIndicator])
                        @ replyNodes outcome (trim txt))
       (chatMessages s)"
  using assms
  by (simp add: sendTextMessage_def Let_def chat_processMessage addUserMessage_def chat_appendChild
      option.map_comp comp_def)

lemma chat_handleVoiceInput:
  "chatMessages (handleVoiceInput outcome transcript s) =
     map_option (\<lambda>ns. remove1 TypingIndicator
                        (ns @ [MessageGroup ''user'' transcript ''voice'' None None, TypingIndicator])
                        @ replyNodes outcome transcript)
       (chatMessages s)"
  by (simp add: handleVoiceInput_def Let_def chat_processMessage addUserMessage_def chat_appendChild
      option.map_comp comp_def)

text \<open>
  What the three ways of sending do to the blocks of quick replies already in the chat.
  After a click on a quick reply no block of quick replies precedes a user entry: every
  block rendered before was removed before the entry was appended. After a typed (ASCII,
  not blank) or spoken message the blocks rendered before are still there, in their order.
\<close>

lemma quick_replies_cleared_on_click_only:
  assumes "chatMessages s = Some ns"
  shows "(\<exists>ns'. chatMessages (sendQuickReply outcome suggestion s) = Some ns' \<and> \<not> staleSuggestions ns')
       \<and> (isAscii typed \<and> trim typed \<noteq> [] \<longrightarrow>
            (\<exists>ns'. chatMessages (sendTextMessage outcome typed s) = Some ns'
                  \<and> prefix (filter isQuickReplies ns) (filter isQuickReplies ns')))
       \<and> (\<exists>ns'. chatMessages (handleVoiceInput outcome transcript s) = Some ns'
                  \<and> prefix (filter isQuickReplies ns) (filter isQuickReplies ns'))"
proof -
  let ?xs = "remove1 TypingIndicator
               (filter (\<lambda>n. \<not> isQuickReplies n) ns
                  @ [MessageGroup ''user'' suggestion ''text'' None None, TypingIndicator])"
  have "\<forall>n \<in> set ?xs. \<not> isQuickReplies n"
    using set_remove1_subset[of TypingIndicator
        "filter (\<lambda>n. \<not> isQuickReplies n) ns @ [MessageGroup ''user'' suggestion ''text'' None None, TypingIndicator]"]
    by auto
  moreover have "\<forall>m \<in> set (replyNodes outcome suggestion). \<not> isFrom ''user'' m"
    using user_replyNodes[of outcome suggestion] by (simp add: filter_empty_conv)
  ultimately have 1: "\<not> staleSuggestions (?xs @ replyNodes outcome suggestion)"
    by (rule staleSuggestions_append)
  have 2: "\<exists>ns'. chatMessages (sendQuickReply outcome suggestion s) = Some ns' \<and> \<not> staleSuggestions ns'"
    using 1 by (simp add: chat_sendQuickReply assms)
  have 3: "isAscii typed \<and> trim typed \<noteq> [] \<longrightarrow>
            (\<exists>ns'. chatMessages (sendTextMessage outcome typed s) = Some ns'
                  \<and> prefix (filter isQuickReplies ns) (filter isQuickReplies ns'))"
    by (simp add: chat_sendTextMessage assms filter_remove1_other)
  have 4: "\<exists>ns'. chatMessages (handleVoiceInput outcome transcript s) = Some ns'
                  \<and> prefix (filter isQuickReplies ns) (filter isQuickReplies ns')"
    by (simp add: chat_handleVoiceInput assms filter_remove1_other)
  show ?thesis using 2 3 4 by blast
qed

text \<open>
  C8, at the input where the code fails it. The assistant suggests two quick replies, the
  user types a message instead of clicking one, and the block of quick replies is still in
  the chat, before the new user entry: \<^verbatim>\<open>sendTextMessage\<close> has no step that removes it.
\<close>

theorem typed_message_keeps_stale_quick_replies:
  "chatMessages (sendTextMessage NetworkError ''hello''
      (sendTextMessage
         (Payload \<lparr>response = Some ''Which model?'', intent = None, confidence = None,
                   suggestions = Some [''Activa'', ''Jupiter'']\<rparr>)
         ''scooters'' (constructor True (Some []) [] 0 (\<lambda>_. 0)))) =
     Some [MessageGroup ''user'' ''scooters'' ''text'' None None,
           MessageGroup ''ai'' ''Which model?'' ''text'' None None,
           QuickReplies [''Activa'', ''Jupiter''],
           MessageGroup ''user'' ''hello'' ''text'' None None,
           MessageGroup ''ai'' genericReply ''text'' None None]
   \<and> staleSuggestions
        [MessageGroup ''user'' ''scooters'' ''text'' None None,
         MessageGroup ''ai'' ''Which model?'' ''text'' None None,
         QuickReplies [''Activa'', ''Jupiter''],
         MessageGroup ''user'' ''hello'' ''text'' None None,
         MessageGroup ''ai'' genericReply ''text'' None None]"
proof -
  have t1: "trim ''hello'' = ''hello''" by code_simp
  have t2: "trim ''scooters'' = ''scooters''" by code_simp
  have g: "getDemoResponse ''hello'' = genericReply" by code_simp
  show ?thesis
    by (simp add: chat_sendTextMessage t1 t2 g replyNodes_def constructor_def)
qed

lemma quick_replies_cleared_on_click_only_example:
  "(\<exists>ns'. chatMessages (sendQuickReply NetworkError ''Activa''
      (sendTextMessage
         (Payload \<lparr>response = Some ''Which model?'', intent = None, confidence = None,
                   suggestions = Some [''Activa'', ''Jupiter'']\<rparr>)
         ''scooters'' (constructor True (Some []) [] 0 (\<lambda>_. 0)))) = Some ns' \<and> \<not> staleSuggestions ns')
   \<and> trim ''hello'' \<noteq> []
   \<and> (\<exists>ns'. chatMessages (sendTextMessage NetworkError ''hello''
      (sendTextMessage
         (Payload \<lparr>response = Some ''Which model?'', intent = None, confidence = None,
                   suggestions = Some [''Activa'', ''Jupiter'']\<rparr>)
         ''scooters'' (constructor True (Some []) [] 0 (\<lambda>_. 0)))) = Some ns'
        \<and> prefix [QuickReplies [''Activa'', ''Jupiter'']] (filter isQuickReplies ns'))"
proof -
  have a1: "isAscii ''hello''" by code_simp
  have t1: "trim ''hello'' = ''hello''" by code_simp
  have t2: "trim ''scooters'' = ''scooters''" by code_simp
  have c: "chatMessages (sendTextMessage
         (Payload \<lparr>response = Some ''Which model?'', intent = None, confidence = None,
                   suggestions = Some [''Activa'', ''Jupiter'']\<rparr>)
         ''scooters'' (constructor True (Some []) [] 0 (\<lambda>_. 0))) =
       Some [MessageGroup ''user'' ''scooters'' ''text'' None None,
           MessageGroup ''ai'' ''Which model?'' ''text'' None None,
           QuickReplies [''Activa'', ''Jupiter'']]"
    by (simp add: chat_sendTextMessage t2 replyNodes_def constructor_def)
  show ?thesis
    using quick_replies_cleared_on_click_only[OF c, where outcome = NetworkError
        and suggestion = "''Activa''" and typed = "''hello''" and transcript = "''hi''"]
    by (simp add: t1 a1)
qed

subsection \<open>Mock data\<close>




















subsection \<open>Report compilation\<close>

lemma fetchAnalyticsData_frame [simp]:
  "downloads (snd (fetchAnalyticsData src s)) = downloads s"
  "pending (snd (fetchAnalyticsData src s)) = pending s"
  "notifications (snd (fetchAnalyticsData src s)) = notifications s"
  "reportProgress (snd (fetchAnalyticsData src s)) = reportProgress s"
  "clock (snd (fetchAnalyticsData src s)) = clock s"
  "chatMessages (snd (fetchAnalyticsData src s)) = chatMessages s"
  by (cases src; simp add: fetchAnalyticsData_def generateMockAnalytics_def)+

lemma fetchCustomersData_frame [simp]:
  "downloads (snd (fetchCustomersData src s)) = downloads s"
  "pending (snd (fetchCustomersData src s)) = pending s"
  "notifications (snd (fetchCustomersData src s)) = notifications s"
  "reportProgress (snd (fetchCustomersData src s)) = reportProgress s"
  "clock (snd (fetchCustomersData src s)) = clock s"
  "chatMessages (snd (fetchCustomersData src s)) = chatMessages s"
  by (cases src; simp add: fetchCustomersData_def generateMockCustomers_def)+

lemma fetchInventoryData_frame [simp]:
  "downloads (snd (fetchInventoryData src s)) = downloads s"
  "pending (snd (fetchInventoryData src s)) = pending s"
  "notifications (snd (fetchInventoryData src s)) = notifications s"
  "reportProgress (snd (fetchInventoryData src s)) = reportProgress s"
  "clock (snd (fetchInventoryData src s)) = clock s"
  "chatMessages (snd (fetchInventoryData src s)) = chatMessages s"
  by (cases src; simp add: fetchInventoryData_def generateMockInventory_def)+

lemma compileReport_frame [simp]:
  "downloads (snd (compileReport env s)) = downloads s"
  "pending (snd (compileReport env s)) = pending s"
  "notifications (snd (compileReport env s)) = notifications s"
  "reportProgress (snd (compileReport env s)) = reportProgress s"
  "clock (snd (compileReport env s)) = clock s"
  "chatMessages (snd (compileReport env s)) = chatMessages s"
  by (simp_all add: compileReport_def split_def Let_def)






lemma notifications_hideReportProgress [simp]:
  "notifications (hideReportProgress s) = notifications s"
  "downloads (hideReportProgress s) = downloads s"
  "pending (hideReportProgress s) = pending s"
  "clock (hideReportProgress s) = clock s"
  "reportProgress (hideReportProgress s) = reportProgress s - 1"
  by (simp_all add: hideReportProgress_def)

lemma showReportProgress_fields [simp]:
  "notifications (showReportProgress s) = notifications s"
  "downloads (showReportProgress s) = downloads s"
  "pending (showReportProgress s) = pending s"
  "clock (showReportProgress s) = clock s"
  "reportProgress (showReportProgress s) = Suc (reportProgress s)"
  by (simp_all add: showReportProgress_def)

lemma addNotification_frame [simp]:
  "downloads (addNotification m ty s) = downloads s"
  "pending (addNotification m ty s) = pending s"
  "reportProgress (addNotification m ty s) = reportProgress s"
  "clock (addNotification m ty s) = clock s"
  by (simp_all add: addNotification_def addSystemMessage_def appendChild_def split: option.splits)









end
